theory Spec2Isabelle
  imports Main
begin

section \<open>Data model\<close>

text \<open>
  The service of \<^verbatim>\<open>src/app/services/user_service.py\<close> (class \<^verbatim>\<open>UserService\<close>) is
  embedded with explicit state passing: every method takes the User Store and returns
  its result together with the store after the call. An exception is a value of the
  type \<open>error\<close>, on the left of a sum.
\<close>

text \<open>A UUID4 is kept in its textual form, the one an f-string prints.\<close>

type_synonym uuid = string

text \<open>
  Modelled from the spec: the schemas \<^verbatim>\<open>schemas.user.UserIn\<close>,
  \<^verbatim>\<open>schemas.user.UserLogin\<close> and \<^verbatim>\<open>schemas.user.UserInDBBase\<close> are not part of
  the source at hand. The registration input carries username, email and plaintext
  password; the credentials carry username and plaintext password; the value returned
  by a registration carries the public fields of the created user, without the hash.
\<close>

record UserIn =
  username :: string
  email :: string
  password :: string

record UserLogin =
  username :: string
  password :: string

record UserInDBBase =
  user_id :: uuid
  username :: string
  email :: string
  is_superuser :: bool

text \<open>
  Modelled from the spec: the row of the User Store (the ORM class behind
  \<^verbatim>\<open>repositories.user_repository\<close> is not part of the source at hand). A user is an
  identity record with an id, a username, an email, a hashed password and a superuser
  flag. The service reads \<^verbatim>\<open>user.username\<close>, \<^verbatim>\<open>user.hashed_password\<close> and
  \<^verbatim>\<open>user.is_superuser\<close>.
\<close>

record User =
  user_id :: uuid
  username :: string
  email :: string
  hashed_password :: string
  is_superuser :: bool

text \<open>The User Store is the table of rows, in insertion order.\<close>

type_synonym store = "User list"

text \<open>
  \<^verbatim>\<open>fastapi.HTTPException(status_code, detail, headers=None)\<close>, and the other ways
  a call can fail: a validator rejecting its input (the spec's \<open>InvalidInput\<close>, with the
  human-readable reason), Python's error on using \<^verbatim>\<open>None\<close> as a user object, and
  the \<^verbatim>\<open>OverflowError\<close> of \<^verbatim>\<open>datetime.timedelta\<close>.
\<close>

datatype error =
    HTTPException (status_code: nat) (detail: string) (headers: "(string \<times> string) list option")
  | InvalidInput string
  | NoneObject
  | OverflowError

definition HTTP_400_BAD_REQUEST :: nat where
  "HTTP_400_BAD_REQUEST = 400"

definition HTTP_404_NOT_FOUND :: nat where
  "HTTP_404_NOT_FOUND = 404"

text \<open>
  \<^verbatim>\<open>datetime.timedelta\<close>, as a number of seconds. \<^verbatim>\<open>timedelta(minutes=m)\<close>, for an
  integer \<open>m\<close>, lasts \<open>60 * m\<close> seconds; Python normalises it to days, seconds and
  microseconds, the days being \<open>m\<close> divided by 1440 and rounded down, and raises
  \<^verbatim>\<open>OverflowError\<close> when the days leave the range from \<open>-999999999\<close> to \<open>999999999\<close>.
\<close>

type_synonym timedelta = int

definition timedelta_minutes :: "int \<Rightarrow> error + timedelta" where
  "timedelta_minutes m =
     (let days = m div 1440
      in if days < - 999999999 \<or> 999999999 < days then Inl OverflowError
         else Inr (60 * m))"

text \<open>\<^verbatim>\<open>config.settings.settings\<close>: the token lifetime in minutes is an external setting.\<close>

record settings =
  ACCESS_TOKEN_EXPIRE_MINUTES :: int

text \<open>
  Modelled from the spec: the collaborators imported from \<^verbatim>\<open>core.security\<close>,
  \<^verbatim>\<open>core.password_validator\<close> and \<^verbatim>\<open>core.email_validator\<close> are not part of the
  source at hand, and are taken as parameters with the contracts of the spec:
  \<^item> the Secret Hasher: \<open>get_password_hash\<close> maps a plaintext to a digest,
    \<open>pwd_context_verify plaintext digest\<close> answers with a boolean;
  \<^item> the Token Issuer: \<open>create_access_token claims ttl\<close> gives a token;
  \<^item> the validators: each either accepts (\<open>None\<close>) or fails with \<open>InvalidInput\<close> and a
    reason (\<open>Some reason\<close>);
  \<^item> what the store decides for a new row: its id and its superuser flag.
\<close>

record collaborators =
  get_password_hash :: "string \<Rightarrow> string"
  pwd_context_verify :: "string \<Rightarrow> string \<Rightarrow> bool"
  create_access_token :: "(string \<times> string) list \<Rightarrow> timedelta \<Rightarrow> string"
  validate_password :: "string \<Rightarrow> string option"
  validate_email :: "string \<Rightarrow> string option"
  new_id :: "store \<Rightarrow> uuid"
  new_is_superuser :: bool

section \<open>The User Store\<close>

text \<open>
  Modelled from the spec: \<^verbatim>\<open>repositories.user_repository.UserRepository\<close> is not part
  of the source at hand. The spec gives its contract: \<open>existsByEmail\<close>,
  \<open>existsByUsername\<close>, \<open>existsById\<close>, \<open>getByUsername\<close>, \<open>getById\<close>, \<open>create(data, hash)\<close>
  and \<open>delete(user)\<close>, all synchronous, raising no exception of their own, absence
  reported as a boolean or as the empty value. The lookups read the table and return
  the first matching row.
\<close>

text \<open>Modelled from the spec: \<open>getByUsername\<close>, the user with that username or nothing.\<close>

definition get_user_by_username :: "store \<Rightarrow> string \<Rightarrow> User option" where
  "get_user_by_username s n = find (\<lambda>u. User.username u = n) s"

text \<open>Modelled from the spec: \<open>getById\<close>, the user with that id or nothing.\<close>

definition get_user_object_by_id :: "store \<Rightarrow> uuid \<Rightarrow> User option" where
  "get_user_object_by_id s i = find (\<lambda>u. User.user_id u = i) s"

text \<open>Modelled from the spec: \<open>existsByEmail\<close>, whether some user has that email.\<close>

definition user_exists_by_email :: "store \<Rightarrow> string \<Rightarrow> bool" where
  "user_exists_by_email s e = (find (\<lambda>u. User.email u = e) s \<noteq> None)"

text \<open>Modelled from the spec: \<open>existsByUsername\<close>, whether some user has that username.\<close>

definition user_exists_by_username :: "store \<Rightarrow> string \<Rightarrow> bool" where
  "user_exists_by_username s n = (get_user_by_username s n \<noteq> None)"

text \<open>Modelled from the spec: \<open>existsById\<close>, whether some user has that id.\<close>

definition user_exists_by_id :: "store \<Rightarrow> uuid \<Rightarrow> bool" where
  "user_exists_by_id s i = (get_user_object_by_id s i \<noteq> None)"

text \<open>
  Modelled from the spec: the record that \<open>create(data, hash)\<close> of the absent repository
  persists, built from the input data and the hash; its id and its superuser flag are
  the store's choice.
\<close>

definition new_user :: "collaborators \<Rightarrow> store \<Rightarrow> UserIn \<Rightarrow> string \<Rightarrow> User" where
  "new_user env s data hashed =
     \<lparr>User.user_id = new_id env s,
      User.username = UserIn.username data,
      User.email = UserIn.email data,
      User.hashed_password = hashed,
      User.is_superuser = new_is_superuser env\<rparr>"

text \<open>
  Modelled from the spec: the public fields of a user, which are all its fields but the
  hash.
\<close>

definition public_fields :: "User \<Rightarrow> UserInDBBase" where
  "public_fields u =
     \<lparr>UserInDBBase.user_id = User.user_id u,
      UserInDBBase.username = User.username u,
      UserInDBBase.email = User.email u,
      UserInDBBase.is_superuser = User.is_superuser u\<rparr>"

text \<open>
  Modelled from the spec: \<open>create(data, hash)\<close> of the absent repository persists a new
  user record, one new row in the User Store, and returns the created user's public
  fields, the hash excluded.
\<close>

definition repository_create ::
  "collaborators \<Rightarrow> store \<Rightarrow> UserIn \<Rightarrow> string \<Rightarrow> UserInDBBase \<times> store" where
  "repository_create env s data hashed =
     (let user = new_user env s data hashed in (public_fields user, s @ [user]))"

text \<open>
  Modelled from the spec: \<open>delete(user)\<close> of the absent repository removes the user
  record, the row of the table whose primary key is the id of the given object.
\<close>

definition repository_delete_user :: "store \<Rightarrow> User \<Rightarrow> store" where
  "repository_delete_user s user = filter (\<lambda>u. User.user_id u \<noteq> User.user_id user) s"

section \<open>The service\<close>

text \<open>
  \<^verbatim>\<open>UserService.create\<close>: the email check, the username check, the password
  validator, the email validator, the hash, and the repository's create, in the order
  of the source. Each failure leaves with the store it was given.
\<close>

definition UserService_create ::
  "collaborators \<Rightarrow> store \<Rightarrow> UserIn \<Rightarrow> (error + UserInDBBase) \<times> store" where
  "UserService_create env s data =
     (if user_exists_by_email s (UserIn.email data) then
        (Inl (HTTPException HTTP_400_BAD_REQUEST
               (''Email '' @ UserIn.email data @ '' already registered'') None), s)
      else if user_exists_by_username s (UserIn.username data) then
        (Inl (HTTPException HTTP_400_BAD_REQUEST
               (''Username '' @ UserIn.username data @ '' already registered'') None), s)
      else
        (case validate_password env (UserIn.password data) of
           Some reason \<Rightarrow> (Inl (InvalidInput reason), s)
         | None \<Rightarrow>
            (case validate_email env (UserIn.email data) of
               Some reason \<Rightarrow> (Inl (InvalidInput reason), s)
             | None \<Rightarrow>
                (let hashed_password = get_password_hash env (UserIn.password data);
                     (created, s') = repository_create env s data hashed_password
                 in (Inr created, s')))))"

text \<open>
  \<^verbatim>\<open>UserService.login\<close>. The source raises one exception for \<^verbatim>\<open>not user\<close> and for
  a failed \<^verbatim>\<open>pwd_context.verify\<close>; Python's \<^verbatim>\<open>or\<close> does not call \<^verbatim>\<open>verify\<close> when
  there is no user. The expiration delta is built after these checks, and an
  \<^verbatim>\<open>OverflowError\<close> of \<^verbatim>\<open>timedelta\<close> leaves the method. The result is the dictionary
  of the source, as an association list.
\<close>

definition UserService_login ::
  "collaborators \<Rightarrow> settings \<Rightarrow> store \<Rightarrow> UserLogin \<Rightarrow>
     (error + (string \<times> string) list) \<times> store" where
  "UserService_login env cfg s data =
     (case get_user_by_username s (UserLogin.username data) of
        None \<Rightarrow>
          (Inl (HTTPException 401 ''Incorrect username or password''
                 (Some [(''WWW-Authenticate'', ''Bearer'')])), s)
      | Some user \<Rightarrow>
          (if \<not> pwd_context_verify env (UserLogin.password data) (User.hashed_password user) then
             (Inl (HTTPException 401 ''Incorrect username or password''
                    (Some [(''WWW-Authenticate'', ''Bearer'')])), s)
           else
             (case timedelta_minutes (ACCESS_TOKEN_EXPIRE_MINUTES cfg) of
                Inl e \<Rightarrow> (Inl e, s)
              | Inr access_token_expires \<Rightarrow>
                 (let access_token =
                        create_access_token env [(''sub'', User.username user)]
                          access_token_expires
                  in (Inr [(''access_token'', access_token), (''token_type'', ''bearer'')],
                      s)))))"

text \<open>
  \<^verbatim>\<open>UserService.is_superuser\<close>: the existence check, then the lookup of the object.
  Reading \<^verbatim>\<open>.is_superuser\<close> of \<^verbatim>\<open>None\<close> would raise; that branch is kept.
\<close>

definition UserService_is_superuser :: "store \<Rightarrow> uuid \<Rightarrow> (error + bool) \<times> store" where
  "UserService_is_superuser s i =
     (if \<not> user_exists_by_id s i then
        (Inl (HTTPException HTTP_404_NOT_FOUND (''User '' @ i @ '' not found'') None), s)
      else
        (case get_user_object_by_id s i of
           None \<Rightarrow> (Inl NoneObject, s)
         | Some user \<Rightarrow> (Inr (User.is_superuser user), s)))"

text \<open>
  \<^verbatim>\<open>UserService.delete_user\<close>: the existence check, the lookup of the object, the
  repository's delete, and \<^verbatim>\<open>True\<close>.
\<close>

definition UserService_delete_user :: "store \<Rightarrow> uuid \<Rightarrow> (error + bool) \<times> store" where
  "UserService_delete_user s i =
     (if \<not> user_exists_by_id s i then
        (Inl (HTTPException HTTP_404_NOT_FOUND (''User '' @ i @ '' not found'') None), s)
      else
        (case get_user_object_by_id s i of
           None \<Rightarrow> (Inl NoneObject, s)
         | Some user \<Rightarrow> (Inr True, repository_delete_user s user)))"

section \<open>A concrete instance\<close>

text \<open>
  An instance of the collaborators, a configuration and a store with two users, on
  which the service can be run: the digest of a password is the reversed password
  behind a tag, a password is accepted from eight characters on, an email when it has
  an \<open>@\<close>, and the id of a new row counts the rows before it.
\<close>

definition example_env :: collaborators where
  "example_env =
     \<lparr>get_password_hash = (\<lambda>p. ''digest:'' @ rev p),
      pwd_context_verify = (\<lambda>p h. h = ''digest:'' @ rev p),
      create_access_token =
        (\<lambda>claims ttl. (if 0 < ttl then ''signed:'' else ''expired:'') @ concat (map snd claims)),
      validate_password =
        (\<lambda>p. if length p < 8 then Some ''Password must be at least 8 characters long''
             else None),
      validate_email =
        (\<lambda>e. if CHR ''@'' \<in> set e then None else Some ''Invalid email address''),
      new_id = (\<lambda>s. ''user-'' @ replicate (length s) CHR ''i''),
      new_is_superuser = False\<rparr>"

definition example_settings :: settings where
  "example_settings = \<lparr>ACCESS_TOKEN_EXPIRE_MINUTES = 30\<rparr>"

definition example_store :: store where
  "example_store =
     [\<lparr>User.user_id = ''user-'', User.username = ''root'', User.email = ''root@x.com'',
       User.hashed_password = ''digest:toor-toor'', User.is_superuser = True\<rparr>,
      \<lparr>User.user_id = ''user-i'', User.username = ''alice'', User.email = ''a@x.com'',
       User.hashed_password = ''digest:ssaP!gn0rtS'', User.is_superuser = False\<rparr>]"

section \<open>Facts about the User Store\<close>

lemma get_user_by_username_SomeD:
  "get_user_by_username s n = Some u \<Longrightarrow> u \<in> set s \<and> User.username u = n"
  by (auto simp: get_user_by_username_def find_Some_iff)

lemma get_user_object_by_id_SomeD:
  "get_user_object_by_id s i = Some u \<Longrightarrow> u \<in> set s \<and> User.user_id u = i"
  by (auto simp: get_user_object_by_id_def find_Some_iff)

lemma user_exists_by_id_iff: "user_exists_by_id s i = (i \<in> User.user_id ` set s)"
  by (auto simp: user_exists_by_id_def get_user_object_by_id_def find_None_iff)

lemma user_exists_by_username_iff:
  "user_exists_by_username s n = (n \<in> User.username ` set s)"
  by (auto simp: user_exists_by_username_def get_user_by_username_def find_None_iff)

lemma user_exists_by_email_iff: "user_exists_by_email s e = (e \<in> User.email ` set s)"
  by (auto simp: user_exists_by_email_def find_None_iff)

lemma get_user_object_by_id_distinct:
  "distinct (map User.user_id s) \<Longrightarrow> u \<in> set s \<Longrightarrow> get_user_object_by_id s (User.user_id u) = Some u"
  unfolding get_user_object_by_id_def
  by (induction s) auto


lemma length_filter_distinct_id:
  "distinct (map User.user_id s) \<Longrightarrow> i \<in> User.user_id ` set s \<Longrightarrow>
   Suc (length (filter (\<lambda>u. User.user_id u \<noteq> i) s)) = length s"
proof (induction s)
  case Nil
  then show ?case by simp
next
  case (Cons a s)
  show ?case
  proof (cases "User.user_id a = i")
    case True
    from Cons.prems have "User.user_id a \<notin> User.user_id ` set s" by simp
    with True have "\<forall>u\<in>set s. User.user_id u \<noteq> i" by blast
    then have "filter (\<lambda>u. User.user_id u \<noteq> i) s = s" by (simp add: filter_id_conv)
    with True show ?thesis by simp
  next
    case False
    with Cons show ?thesis by auto
  qed
qed

section \<open>Facts about the expiration delta\<close>

lemma timedelta_minutes_in_range:
  "- 1439999998560 \<le> m \<Longrightarrow> m \<le> 1439999999999 \<Longrightarrow> timedelta_minutes m = Inr (60 * m)"
proof -
  assume lo: "- 1439999998560 \<le> m" and hi: "m \<le> 1439999999999"
  from lo have "- 999999999 \<le> m div 1440"
    using zdiv_mono1 [of "- 1439999998560" m 1440] by simp
  moreover from hi have "m div 1440 \<le> 999999999"
    using zdiv_mono1 [of m 1439999999999 1440] by simp
  ultimately show ?thesis by (simp add: timedelta_minutes_def Let_def)
qed

lemma timedelta_minutes_out_of_range:
  "m < - 1439999998560 \<or> 1439999999999 < m \<Longrightarrow> timedelta_minutes m = Inl OverflowError"
proof -
  assume out: "m < - 1439999998560 \<or> 1439999999999 < m"
  have below: "m div 1440 < - 999999999" if "m < - 1439999998560"
    using that zdiv_mono1 [of m "- 1439999998561" 1440] by simp
  have above: "999999999 < m div 1440" if "1439999999999 < m"
    using that zdiv_mono1 [of 1440000000000 m 1440] by simp
  from out below above have "m div 1440 < - 999999999 \<or> 999999999 < m div 1440"
    by blast
  then show ?thesis by (simp add: timedelta_minutes_def Let_def)
qed

section \<open>Registration and login\<close>

text \<open>
  C1: for every username and password, \<^verbatim>\<open>UserService.login\<close> fails with Unauthorized
  (the exception of status 401) when no user with that username exists, and when a user
  exists but the verification of the password against the stored hash fails. In the two
  cases the error is the same value (same status, same detail, same headers), so a run
  with a nonexistent username and a run with a wrong password cannot be told apart by
  the error.
\<close>

theorem login_unauthorized_indistinguishable:
  "(get_user_by_username s (UserLogin.username data) = None \<longrightarrow>
      fst (UserService_login env cfg s data) =
        Inl (HTTPException 401 ''Incorrect username or password''
              (Some [(''WWW-Authenticate'', ''Bearer'')])))
   \<and> (\<forall>user. get_user_by_username s (UserLogin.username data) = Some user
         \<and> \<not> pwd_context_verify env (UserLogin.password data) (User.hashed_password user) \<longrightarrow>
      fst (UserService_login env cfg s data) =
        Inl (HTTPException 401 ''Incorrect username or password''
              (Some [(''WWW-Authenticate'', ''Bearer'')])))
   \<and> (\<forall>s' data' user'.
        get_user_by_username s (UserLogin.username data) = None
        \<and> get_user_by_username s' (UserLogin.username data') = Some user'
        \<and> \<not> pwd_context_verify env (UserLogin.password data') (User.hashed_password user') \<longrightarrow>
        fst (UserService_login env cfg s data) = fst (UserService_login env cfg s' data'))"
  by (simp add: UserService_login_def)

theorem login_unauthorized_indistinguishable_witness:
  "get_user_by_username example_store ''bob'' = None
   \<and> get_user_by_username example_store ''alice'' \<noteq> None
   \<and> fst (UserService_login example_env example_settings example_store
        \<lparr>UserLogin.username = ''bob'', password = ''Str0ng!Pass''\<rparr>) =
     Inl (HTTPException 401 ''Incorrect username or password''
              (Some [(''WWW-Authenticate'', ''Bearer'')]))
   \<and> fst (UserService_login example_env example_settings example_store
        \<lparr>UserLogin.username = ''bob'', password = ''Str0ng!Pass''\<rparr>) =
     fst (UserService_login example_env example_settings example_store
        \<lparr>UserLogin.username = ''alice'', password = ''wrong''\<rparr>)"
proof -
  let ?bob = "\<lparr>UserLogin.username = ''bob'', password = ''Str0ng!Pass''\<rparr>"
  let ?alice = "\<lparr>UserLogin.username = ''alice'', password = ''wrong''\<rparr>"
  let ?row = "\<lparr>User.user_id = ''user-i'', User.username = ''alice'', User.email = ''a@x.com'',
       User.hashed_password = ''digest:ssaP!gn0rtS'', User.is_superuser = False\<rparr>"
  have none: "get_user_by_username example_store (UserLogin.username ?bob) = None"
    by (simp add: get_user_by_username_def example_store_def)
  have some: "get_user_by_username example_store (UserLogin.username ?alice) = Some ?row"
    by (simp add: get_user_by_username_def example_store_def)
  have wrong: "\<not> pwd_context_verify example_env (UserLogin.password ?alice) (User.hashed_password ?row)"
    by (simp add: example_env_def)
  note inst = login_unauthorized_indistinguishable
    [of example_store ?bob example_env example_settings]
  from inst none have a: "fst (UserService_login example_env example_settings example_store ?bob) =
     Inl (HTTPException 401 ''Incorrect username or password''
              (Some [(''WWW-Authenticate'', ''Bearer'')]))"
    by blast
  from inst none some wrong
  have b: "fst (UserService_login example_env example_settings example_store ?bob) =
     fst (UserService_login example_env example_settings example_store ?alice)"
    by blast
  from none some a b show ?thesis by simp
qed


text \<open>
  C2: for every registration input, \<^verbatim>\<open>UserService.create\<close> fails with Conflict (the
  exception of status \<^verbatim>\<open>HTTP_400_BAD_REQUEST\<close> saying "already registered") whenever
  the email or the username is already taken. The email is checked first: with a taken
  email the conflict reported is the email conflict, whatever the username (so also
  when both are taken); the username conflict is reported when only the username is
  taken.
\<close>

theorem create_conflict_email_first:
  "(user_exists_by_email s (UserIn.email data) \<longrightarrow>
      UserService_create env s data =
        (Inl (HTTPException HTTP_400_BAD_REQUEST
               (''Email '' @ UserIn.email data @ '' already registered'') None), s))
   \<and> (\<not> user_exists_by_email s (UserIn.email data)
        \<and> user_exists_by_username s (UserIn.username data) \<longrightarrow>
      UserService_create env s data =
        (Inl (HTTPException HTTP_400_BAD_REQUEST
               (''Username '' @ UserIn.username data @ '' already registered'') None), s))
   \<and> (user_exists_by_email s (UserIn.email data)
        \<or> user_exists_by_username s (UserIn.username data) \<longrightarrow>
      (\<exists>detail. fst (UserService_create env s data) =
         Inl (HTTPException HTTP_400_BAD_REQUEST detail None)))"
  by (simp add: UserService_create_def)

theorem create_conflict_email_first_witness:
  "user_exists_by_email example_store ''a@x.com''
   \<and> user_exists_by_username example_store ''alice''
   \<and> UserService_create example_env example_store
        \<lparr>UserIn.username = ''alice'', email = ''a@x.com'', password = ''Str0ng!Pass''\<rparr> =
      (Inl (HTTPException HTTP_400_BAD_REQUEST ''Email a@x.com already registered'' None),
       example_store)
   \<and> UserService_create example_env example_store
        \<lparr>UserIn.username = ''alice'', email = ''b@x.com'', password = ''Str0ng!Pass''\<rparr> =
      (Inl (HTTPException HTTP_400_BAD_REQUEST ''Username alice already registered'' None),
       example_store)"
proof -
  let ?both = "\<lparr>UserIn.username = ''alice'', email = ''a@x.com'', password = ''Str0ng!Pass''\<rparr>"
  let ?name = "\<lparr>UserIn.username = ''alice'', email = ''b@x.com'', password = ''Str0ng!Pass''\<rparr>"
  have e: "user_exists_by_email example_store ''a@x.com''"
    by (simp add: user_exists_by_email_def example_store_def)
  have n: "user_exists_by_username example_store ''alice''"
    by (simp add: user_exists_by_username_def get_user_by_username_def example_store_def)
  have ne: "\<not> user_exists_by_email example_store ''b@x.com''"
    by (simp add: user_exists_by_email_def example_store_def)
  from e create_conflict_email_first [of example_store ?both example_env]
  have a: "UserService_create example_env example_store ?both =
      (Inl (HTTPException HTTP_400_BAD_REQUEST ''Email a@x.com already registered'' None),
       example_store)"
    by simp
  from n ne create_conflict_email_first [of example_store ?name example_env]
  have b: "UserService_create example_env example_store ?name =
      (Inl (HTTPException HTTP_400_BAD_REQUEST ''Username alice already registered'' None),
       example_store)"
    by simp
  from e n a b show ?thesis by simp
qed

text \<open>
  C3: for every registration input whose email and username are not already taken, if
  the password fails password validation or the email fails email validation,
  \<^verbatim>\<open>UserService.create\<close> fails with InvalidInput and the User Store is left as it was:
  nothing is created before the failure. The reason is the password validator's when
  it fails, the email validator's otherwise.
\<close>

theorem create_invalid_input_before_mutation:
  "\<not> user_exists_by_email s (UserIn.email data) \<Longrightarrow>
   \<not> user_exists_by_username s (UserIn.username data) \<Longrightarrow>
   validate_password env (UserIn.password data) \<noteq> None
     \<or> validate_email env (UserIn.email data) \<noteq> None \<Longrightarrow>
   (\<exists>reason. UserService_create env s data = (Inl (InvalidInput reason), s))
   \<and> (\<forall>reason. validate_password env (UserIn.password data) = Some reason \<longrightarrow>
         UserService_create env s data = (Inl (InvalidInput reason), s))
   \<and> (\<forall>reason. validate_password env (UserIn.password data) = None
         \<and> validate_email env (UserIn.email data) = Some reason \<longrightarrow>
         UserService_create env s data = (Inl (InvalidInput reason), s))"
  by (auto simp: UserService_create_def split: option.splits)

theorem create_invalid_input_before_mutation_witness:
  "UserService_create example_env example_store
     \<lparr>UserIn.username = ''bob'', email = ''b@x.com'', password = ''weak''\<rparr> =
     (Inl (InvalidInput ''Password must be at least 8 characters long''), example_store)
   \<and> UserService_create example_env example_store
     \<lparr>UserIn.username = ''bob'', email = ''bx.com'', password = ''Str0ng!Pass''\<rparr> =
     (Inl (InvalidInput ''Invalid email address''), example_store)"
proof -
  let ?weak = "\<lparr>UserIn.username = ''bob'', email = ''b@x.com'', password = ''weak''\<rparr>"
  let ?mal = "\<lparr>UserIn.username = ''bob'', email = ''bx.com'', password = ''Str0ng!Pass''\<rparr>"
  have n: "\<not> user_exists_by_username example_store (UserIn.username ?weak)"
      "\<not> user_exists_by_username example_store (UserIn.username ?mal)"
    by (simp_all add: user_exists_by_username_def get_user_by_username_def example_store_def)
  have e: "\<not> user_exists_by_email example_store (UserIn.email ?weak)"
      "\<not> user_exists_by_email example_store (UserIn.email ?mal)"
    by (simp_all add: user_exists_by_email_def example_store_def)
  have p: "validate_password example_env (UserIn.password ?weak) =
             Some ''Password must be at least 8 characters long''"
      "validate_password example_env (UserIn.password ?mal) = None"
    by (simp_all add: example_env_def)
  have m: "validate_email example_env (UserIn.email ?mal) = Some ''Invalid email address''"
    by (simp add: example_env_def)
  have "UserService_create example_env example_store ?weak =
     (Inl (InvalidInput ''Password must be at least 8 characters long''), example_store)"
    using create_invalid_input_before_mutation [OF e(1) n(1), of example_env] p(1) by simp
  moreover have "UserService_create example_env example_store ?mal =
     (Inl (InvalidInput ''Invalid email address''), example_store)"
    using create_invalid_input_before_mutation [OF e(2) n(2), of example_env] p(2) m by simp
  ultimately show ?thesis by simp
qed

text \<open>
  C4: for every registration input that passes both uniqueness checks and both
  validators, \<^verbatim>\<open>UserService.create\<close> succeeds, computes the hash of the plaintext
  password, persists exactly one new row, built from the input data and that hash,
  and returns the public fields of the created user. The hash is no part of the
  returned value: the value is the same whatever hash the row holds.
\<close>

theorem create_success_persists_one_row:
  "\<not> user_exists_by_email s (UserIn.email data) \<Longrightarrow>
   \<not> user_exists_by_username s (UserIn.username data) \<Longrightarrow>
   validate_password env (UserIn.password data) = None \<Longrightarrow>
   validate_email env (UserIn.email data) = None \<Longrightarrow>
   UserService_create env s data =
     (Inr \<lparr>UserInDBBase.user_id = new_id env s,
           UserInDBBase.username = UserIn.username data,
           UserInDBBase.email = UserIn.email data,
           UserInDBBase.is_superuser = new_is_superuser env\<rparr>,
      s @ [\<lparr>User.user_id = new_id env s,
            User.username = UserIn.username data,
            User.email = UserIn.email data,
            User.hashed_password = get_password_hash env (UserIn.password data),
            User.is_superuser = new_is_superuser env\<rparr>])
   \<and> length (snd (UserService_create env s data)) = Suc (length s)
   \<and> (\<forall>h. fst (UserService_create env s data) = Inr (public_fields (new_user env s data h)))"
  by (simp add: UserService_create_def repository_create_def new_user_def public_fields_def)

theorem create_success_persists_one_row_witness:
  "UserService_create example_env example_store
     \<lparr>UserIn.username = ''bob'', email = ''b@x.com'', password = ''Str0ng!Pass''\<rparr> =
     (Inr \<lparr>UserInDBBase.user_id = ''user-ii'', UserInDBBase.username = ''bob'',
           UserInDBBase.email = ''b@x.com'', UserInDBBase.is_superuser = False\<rparr>,
      example_store @
        [\<lparr>User.user_id = ''user-ii'', User.username = ''bob'', User.email = ''b@x.com'',
          User.hashed_password = ''digest:ssaP!gn0rtS'', User.is_superuser = False\<rparr>])"
proof -
  let ?bob = "\<lparr>UserIn.username = ''bob'', email = ''b@x.com'', password = ''Str0ng!Pass''\<rparr>"
  have e: "\<not> user_exists_by_email example_store (UserIn.email ?bob)"
    by (simp add: user_exists_by_email_def example_store_def)
  have n: "\<not> user_exists_by_username example_store (UserIn.username ?bob)"
    by (simp add: user_exists_by_username_def get_user_by_username_def example_store_def)
  have p: "validate_password example_env (UserIn.password ?bob) = None"
    by (simp add: example_env_def)
  have m: "validate_email example_env (UserIn.email ?bob) = None"
    by (simp add: example_env_def)
  have i: "new_id example_env example_store = ''user-ii''"
    by (simp add: example_env_def example_store_def)
  have h: "get_password_hash example_env (UserIn.password ?bob) = ''digest:ssaP!gn0rtS''"
    by (simp add: example_env_def)
  have f: "new_is_superuser example_env = False"
    by (simp add: example_env_def)
  from create_success_persists_one_row [OF e n p m] show ?thesis
    unfolding i h f by simp
qed

text \<open>
  C5: as the code has it, for every username and password such that a user with that
  username exists and the verification of the password against the stored hash
  succeeds, and for a configured lifetime \<^verbatim>\<open>ACCESS_TOKEN_EXPIRE_MINUTES\<close> between
  \<open>-1439999998560\<close> and \<open>1439999999999\<close> minutes (the range of \<^verbatim>\<open>timedelta\<close>),
  \<^verbatim>\<open>UserService.login\<close> returns a token and the token type \<open>bearer\<close>; the token is
  issued with the found user's username, which is the submitted one, as its \<open>sub\<close>
  claim and with an expiration delta of that many minutes. For a lifetime outside the
  range the call leaves with the \<^verbatim>\<open>OverflowError\<close> of \<^verbatim>\<open>timedelta\<close> instead.
\<close>

theorem login_success_bearer_token:
  "get_user_by_username s (UserLogin.username data) = Some user \<Longrightarrow>
   pwd_context_verify env (UserLogin.password data) (User.hashed_password user) \<Longrightarrow>
   (- 1439999998560 \<le> ACCESS_TOKEN_EXPIRE_MINUTES cfg
      \<and> ACCESS_TOKEN_EXPIRE_MINUTES cfg \<le> 1439999999999 \<longrightarrow>
      fst (UserService_login env cfg s data) =
        Inr [(''access_token'',
              create_access_token env [(''sub'', User.username user)]
                (60 * ACCESS_TOKEN_EXPIRE_MINUTES cfg)),
             (''token_type'', ''bearer'')]
      \<and> timedelta_minutes (ACCESS_TOKEN_EXPIRE_MINUTES cfg) =
          Inr (60 * ACCESS_TOKEN_EXPIRE_MINUTES cfg))
   \<and> (ACCESS_TOKEN_EXPIRE_MINUTES cfg < - 1439999998560
        \<or> 1439999999999 < ACCESS_TOKEN_EXPIRE_MINUTES cfg \<longrightarrow>
      fst (UserService_login env cfg s data) = Inl OverflowError)
   \<and> User.username user = UserLogin.username data"
proof -
  assume found: "get_user_by_username s (UserLogin.username data) = Some user"
    and ok: "pwd_context_verify env (UserLogin.password data) (User.hashed_password user)"
  from found have name: "User.username user = UserLogin.username data"
    by (simp add: get_user_by_username_SomeD)
  have inside: "fst (UserService_login env cfg s data) =
        Inr [(''access_token'',
              create_access_token env [(''sub'', User.username user)]
                (60 * ACCESS_TOKEN_EXPIRE_MINUTES cfg)),
             (''token_type'', ''bearer'')]"
    if "timedelta_minutes (ACCESS_TOKEN_EXPIRE_MINUTES cfg) =
          Inr (60 * ACCESS_TOKEN_EXPIRE_MINUTES cfg)"
    using that found ok by (simp add: UserService_login_def)
  have outside: "fst (UserService_login env cfg s data) = Inl OverflowError"
    if "timedelta_minutes (ACCESS_TOKEN_EXPIRE_MINUTES cfg) = Inl OverflowError"
    using that found ok by (simp add: UserService_login_def)
  from name inside outside show ?thesis
    using timedelta_minutes_in_range [of "ACCESS_TOKEN_EXPIRE_MINUTES cfg"]
      timedelta_minutes_out_of_range [of "ACCESS_TOKEN_EXPIRE_MINUTES cfg"]
    by blast
qed

theorem login_success_bearer_token_witness:
  "fst (UserService_login example_env example_settings example_store
          \<lparr>UserLogin.username = ''alice'', password = ''Str0ng!Pass''\<rparr>) =
     Inr [(''access_token'', ''signed:alice''), (''token_type'', ''bearer'')]
   \<and> fst (UserService_login example_env \<lparr>ACCESS_TOKEN_EXPIRE_MINUTES = 1440000000000\<rparr>
          example_store \<lparr>UserLogin.username = ''alice'', password = ''Str0ng!Pass''\<rparr>) =
     Inl OverflowError"
proof -
  let ?alice = "\<lparr>UserLogin.username = ''alice'', password = ''Str0ng!Pass''\<rparr>"
  let ?row = "\<lparr>User.user_id = ''user-i'', User.username = ''alice'', User.email = ''a@x.com'',
       User.hashed_password = ''digest:ssaP!gn0rtS'', User.is_superuser = False\<rparr>"
  let ?big = "\<lparr>ACCESS_TOKEN_EXPIRE_MINUTES = 1440000000000\<rparr>"
  have found: "get_user_by_username example_store (UserLogin.username ?alice) = Some ?row"
    by (simp add: get_user_by_username_def example_store_def)
  have ok: "pwd_context_verify example_env (UserLogin.password ?alice) (User.hashed_password ?row)"
    by (simp add: example_env_def)
  have inside: "- 1439999998560 \<le> ACCESS_TOKEN_EXPIRE_MINUTES example_settings
      \<and> ACCESS_TOKEN_EXPIRE_MINUTES example_settings \<le> 1439999999999"
    by (simp add: example_settings_def)
  have outside: "ACCESS_TOKEN_EXPIRE_MINUTES ?big < - 1439999998560
        \<or> 1439999999999 < ACCESS_TOKEN_EXPIRE_MINUTES ?big"
    by simp
  have tok: "create_access_token example_env [(''sub'', User.username ?row)]
      (60 * ACCESS_TOKEN_EXPIRE_MINUTES example_settings) = ''signed:alice''"
    by (simp add: example_env_def example_settings_def)
  from login_success_bearer_token [OF found ok, of example_settings] inside
  have "fst (UserService_login example_env example_settings example_store ?alice) =
        Inr [(''access_token'',
              create_access_token example_env [(''sub'', User.username ?row)]
                (60 * ACCESS_TOKEN_EXPIRE_MINUTES example_settings)),
             (''token_type'', ''bearer'')]"
    by blast
  then have a: "fst (UserService_login example_env example_settings example_store ?alice) =
     Inr [(''access_token'', ''signed:alice''), (''token_type'', ''bearer'')]"
    unfolding tok .
  from login_success_bearer_token [OF found ok, of ?big] outside
  have b: "fst (UserService_login example_env ?big example_store ?alice) = Inl OverflowError"
    by blast
  from a b show ?thesis by simp
qed

text \<open>
  C5 without the bound on the lifetime fails: with the lifetime set to
  \<open>1440000000000\<close> minutes, a user that exists and a password that verifies,
  \<^verbatim>\<open>UserService.login\<close> returns no token but leaves with \<^verbatim>\<open>OverflowError\<close>.
\<close>

theorem login_success_bearer_token_counterexample:
  "get_user_by_username example_store ''alice'' =
     Some \<lparr>User.user_id = ''user-i'', User.username = ''alice'', User.email = ''a@x.com'',
            User.hashed_password = ''digest:ssaP!gn0rtS'', User.is_superuser = False\<rparr>
   \<and> pwd_context_verify example_env ''Str0ng!Pass'' ''digest:ssaP!gn0rtS''
   \<and> fst (UserService_login example_env \<lparr>ACCESS_TOKEN_EXPIRE_MINUTES = 1440000000000\<rparr>
          example_store \<lparr>UserLogin.username = ''alice'', password = ''Str0ng!Pass''\<rparr>) =
      Inl OverflowError"
  by (simp add: UserService_login_def get_user_by_username_def timedelta_minutes_def
        example_store_def example_env_def)




section \<open>Superuser check, deletion, precedence and frame\<close>

text \<open>
  C7: for every id, \<^verbatim>\<open>UserService.is_superuser\<close> fails with NotFound (the exception of
  status \<^verbatim>\<open>HTTP_404_NOT_FOUND\<close>) if and only if no user of the User Store has that id,
  and it fails in no other way; otherwise it returns the superuser flag of the stored
  user (the row the lookup by id gives, which is the only row with that id when ids are
  unique). The store is left as it was.
\<close>

theorem is_superuser_not_found_iff:
  "(fst (UserService_is_superuser s i) =
      Inl (HTTPException HTTP_404_NOT_FOUND (''User '' @ i @ '' not found'') None))
     = (i \<notin> User.user_id ` set s)
   \<and> isl (fst (UserService_is_superuser s i)) = (i \<notin> User.user_id ` set s)
   \<and> (\<forall>user. get_user_object_by_id s i = Some user \<longrightarrow>
         fst (UserService_is_superuser s i) = Inr (User.is_superuser user))
   \<and> (\<forall>user. distinct (map User.user_id s) \<and> user \<in> set s \<and> User.user_id user = i \<longrightarrow>
         fst (UserService_is_superuser s i) = Inr (User.is_superuser user))
   \<and> snd (UserService_is_superuser s i) = s"
proof -
  have nf: "i \<notin> User.user_id ` set s \<Longrightarrow> UserService_is_superuser s i =
      (Inl (HTTPException HTTP_404_NOT_FOUND (''User '' @ i @ '' not found'') None), s)"
    by (simp add: UserService_is_superuser_def user_exists_by_id_iff)
  have ex: "get_user_object_by_id s i = Some user \<Longrightarrow>
      UserService_is_superuser s i = (Inr (User.is_superuser user), s)" for user
    by (simp add: UserService_is_superuser_def user_exists_by_id_def)
  have some: "i \<in> User.user_id ` set s \<Longrightarrow> \<exists>user. get_user_object_by_id s i = Some user"
    using user_exists_by_id_iff [of s i] by (simp add: user_exists_by_id_def)
  have uniq: "distinct (map User.user_id s) \<Longrightarrow> user \<in> set s \<Longrightarrow> User.user_id user = i \<Longrightarrow>
      get_user_object_by_id s i = Some user" for user
    using get_user_object_by_id_distinct [of s user] by simp
  show ?thesis
  proof (cases "i \<in> User.user_id ` set s")
    case True
    then obtain user where u: "get_user_object_by_id s i = Some user"
      using some by blast
    from True u ex [OF u] uniq show ?thesis by auto
  next
    case False
    with nf have r: "UserService_is_superuser s i =
      (Inl (HTTPException HTTP_404_NOT_FOUND (''User '' @ i @ '' not found'') None), s)"
      by simp
    from False have "get_user_object_by_id s i = None"
      using user_exists_by_id_iff [of s i] by (simp add: user_exists_by_id_def)
    with False r show ?thesis by auto
  qed
qed

theorem is_superuser_not_found_iff_witness:
  "fst (UserService_is_superuser example_store ''nobody'') =
      Inl (HTTPException HTTP_404_NOT_FOUND ''User nobody not found'' None)
   \<and> fst (UserService_is_superuser example_store ''user-'') = Inr True
   \<and> fst (UserService_is_superuser example_store ''user-i'') = Inr False
   \<and> snd (UserService_is_superuser example_store ''user-'') = example_store"
proof -
  let ?root = "\<lparr>User.user_id = ''user-'', User.username = ''root'', User.email = ''root@x.com'',
       User.hashed_password = ''digest:toor-toor'', User.is_superuser = True\<rparr>"
  let ?alice = "\<lparr>User.user_id = ''user-i'', User.username = ''alice'', User.email = ''a@x.com'',
       User.hashed_password = ''digest:ssaP!gn0rtS'', User.is_superuser = False\<rparr>"
  have absent: "''nobody'' \<notin> User.user_id ` set example_store"
    by (simp add: example_store_def)
  have d: "distinct (map User.user_id example_store)"
    by (simp add: example_store_def)
  have r: "?root \<in> set example_store" and a: "?alice \<in> set example_store"
    by (simp_all add: example_store_def)
  have "fst (UserService_is_superuser example_store ''nobody'') =
      Inl (HTTPException HTTP_404_NOT_FOUND ''User nobody not found'' None)"
    using is_superuser_not_found_iff [of example_store "''nobody''"] absent by simp
  moreover have "fst (UserService_is_superuser example_store ''user-'') = Inr True"
    using is_superuser_not_found_iff [of example_store "''user-''"] d r by fastforce
  moreover have "fst (UserService_is_superuser example_store ''user-i'') = Inr False"
    using is_superuser_not_found_iff [of example_store "''user-i''"] d a by fastforce
  moreover have "snd (UserService_is_superuser example_store ''user-'') = example_store"
    using is_superuser_not_found_iff [of example_store "''user-''"] by simp
  ultimately show ?thesis by simp
qed

text \<open>
  C8: for every id, \<^verbatim>\<open>UserService.delete_user\<close> fails with NotFound if and only if no
  user of the User Store has that id, and then the store is left as it was; otherwise
  it returns \<^verbatim>\<open>True\<close> and removes that user's record: the rows with another id stay,
  in their order, no row with that id is left, every lookup by another id answers as
  before, and with unique ids the table is one row shorter.
\<close>

theorem delete_user_not_found_iff:
  "(fst (UserService_delete_user s i) =
      Inl (HTTPException HTTP_404_NOT_FOUND (''User '' @ i @ '' not found'') None))
     = (i \<notin> User.user_id ` set s)
   \<and> isl (fst (UserService_delete_user s i)) = (i \<notin> User.user_id ` set s)
   \<and> (i \<notin> User.user_id ` set s \<longrightarrow> snd (UserService_delete_user s i) = s)
   \<and> (i \<in> User.user_id ` set s \<longrightarrow>
        UserService_delete_user s i = (Inr True, filter (\<lambda>u. User.user_id u \<noteq> i) s))
   \<and> (i \<in> User.user_id ` set s \<longrightarrow>
        set (snd (UserService_delete_user s i)) = set s - {u. User.user_id u = i})
   \<and> (i \<in> User.user_id ` set s \<and> distinct (map User.user_id s) \<longrightarrow>
        Suc (length (snd (UserService_delete_user s i))) = length s)
   \<and> (i \<in> User.user_id ` set s \<longrightarrow>
        \<not> user_exists_by_id (snd (UserService_delete_user s i)) i)
   \<and> (\<forall>j. j \<noteq> i \<longrightarrow>
        get_user_object_by_id (snd (UserService_delete_user s i)) j = get_user_object_by_id s j)"
proof -
  have nf: "i \<notin> User.user_id ` set s \<Longrightarrow> UserService_delete_user s i =
      (Inl (HTTPException HTTP_404_NOT_FOUND (''User '' @ i @ '' not found'') None), s)"
    by (simp add: UserService_delete_user_def user_exists_by_id_iff)
  have ex: "i \<in> User.user_id ` set s \<Longrightarrow>
      UserService_delete_user s i = (Inr True, filter (\<lambda>u. User.user_id u \<noteq> i) s)"
  proof -
    assume m: "i \<in> User.user_id ` set s"
    then have e: "user_exists_by_id s i" by (simp add: user_exists_by_id_iff)
    then obtain user where u: "get_user_object_by_id s i = Some user"
      by (auto simp: user_exists_by_id_def)
    then have "User.user_id user = i" by (simp add: get_user_object_by_id_SomeD)
    with e u show ?thesis
      by (simp add: UserService_delete_user_def repository_delete_user_def)
  qed
  have other: "j \<noteq> i \<Longrightarrow>
      get_user_object_by_id (filter (\<lambda>u. User.user_id u \<noteq> i) s) j = get_user_object_by_id s j" for j
    unfolding get_user_object_by_id_def by (induction s) auto
  show ?thesis
  proof (cases "i \<in> User.user_id ` set s")
    case True
    note r = ex [OF True]
    have "set (filter (\<lambda>u. User.user_id u \<noteq> i) s) = set s - {u. User.user_id u = i}"
      by auto
    moreover have "\<not> user_exists_by_id (filter (\<lambda>u. User.user_id u \<noteq> i) s) i"
      by (auto simp: user_exists_by_id_iff)
    moreover have "distinct (map User.user_id s) \<longrightarrow>
        Suc (length (filter (\<lambda>u. User.user_id u \<noteq> i) s)) = length s"
      using True by (simp add: length_filter_distinct_id)
    ultimately show ?thesis using True r other by simp
  next
    case False
    with nf [OF False] show ?thesis by simp
  qed
qed

theorem delete_user_not_found_iff_witness:
  "UserService_delete_user example_store ''nobody'' =
      (Inl (HTTPException HTTP_404_NOT_FOUND ''User nobody not found'' None), example_store)
   \<and> UserService_delete_user example_store ''user-'' =
      (Inr True,
       [\<lparr>User.user_id = ''user-i'', User.username = ''alice'', User.email = ''a@x.com'',
         User.hashed_password = ''digest:ssaP!gn0rtS'', User.is_superuser = False\<rparr>])
   \<and> Suc (length (snd (UserService_delete_user example_store ''user-''))) = length example_store"
proof -
  have absent: "''nobody'' \<notin> User.user_id ` set example_store"
    by (simp add: example_store_def)
  have present: "''user-'' \<in> User.user_id ` set example_store"
    by (simp add: example_store_def)
  have d: "distinct (map User.user_id example_store)"
    by (simp add: example_store_def)
  have f: "filter (\<lambda>u. User.user_id u \<noteq> ''user-'') example_store =
       [\<lparr>User.user_id = ''user-i'', User.username = ''alice'', User.email = ''a@x.com'',
         User.hashed_password = ''digest:ssaP!gn0rtS'', User.is_superuser = False\<rparr>]"
    by (simp add: example_store_def)
  have "UserService_delete_user example_store ''nobody'' =
      (Inl (HTTPException HTTP_404_NOT_FOUND ''User nobody not found'' None), example_store)"
    using delete_user_not_found_iff [of example_store "''nobody''"] absent
    by (simp add: prod_eq_iff)
  moreover have "UserService_delete_user example_store ''user-'' =
      (Inr True, filter (\<lambda>u. User.user_id u \<noteq> ''user-'') example_store)"
    using delete_user_not_found_iff [of example_store "''user-''"] present by blast
  moreover have "Suc (length (snd (UserService_delete_user example_store ''user-''))) =
      length example_store"
    using delete_user_not_found_iff [of example_store "''user-''"] present d by blast
  ultimately show ?thesis unfolding f by simp
qed

text \<open>
  C9: for every registration input whose email or username is already taken,
  \<^verbatim>\<open>UserService.create\<close> raises the Conflict error and the validators play no part:
  the outcome is the same whatever the password validator and the email validator
  would answer, so a conflict comes before InvalidInput even for a weak password or a
  malformed email.
\<close>

theorem create_conflict_before_validation:
  "user_exists_by_email s (UserIn.email data)
     \<or> user_exists_by_username s (UserIn.username data) \<Longrightarrow>
   (\<exists>detail. UserService_create env s data =
      (Inl (HTTPException HTTP_400_BAD_REQUEST detail None), s))
   \<and> (\<forall>vp ve. UserService_create (env\<lparr>validate_password := vp, validate_email := ve\<rparr>) s data =
        UserService_create env s data)"
  by (auto simp: UserService_create_def)

theorem create_conflict_before_validation_witness:
  "validate_password example_env ''weak'' \<noteq> None
   \<and> validate_email example_env ''a@x.com'' = None
   \<and> UserService_create example_env example_store
        \<lparr>UserIn.username = ''bob'', email = ''a@x.com'', password = ''weak''\<rparr> =
      UserService_create
        (example_env\<lparr>validate_password := (\<lambda>p. None), validate_email := (\<lambda>e. Some ''no'')\<rparr>)
        example_store
        \<lparr>UserIn.username = ''bob'', email = ''a@x.com'', password = ''weak''\<rparr>
   \<and> fst (UserService_create example_env example_store
        \<lparr>UserIn.username = ''bob'', email = ''a@x.com'', password = ''weak''\<rparr>) =
      Inl (HTTPException HTTP_400_BAD_REQUEST ''Email a@x.com already registered'' None)"
proof -
  let ?d = "\<lparr>UserIn.username = ''bob'', email = ''a@x.com'', password = ''weak''\<rparr>"
  have taken: "user_exists_by_email example_store (UserIn.email ?d)
     \<or> user_exists_by_username example_store (UserIn.username ?d)"
    by (simp add: user_exists_by_email_def example_store_def)
  have v: "validate_password example_env ''weak'' \<noteq> None"
      "validate_email example_env ''a@x.com'' = None"
    by (simp_all add: example_env_def)
  have c: "fst (UserService_create example_env example_store ?d) =
      Inl (HTTPException HTTP_400_BAD_REQUEST ''Email a@x.com already registered'' None)"
    by (simp add: UserService_create_def user_exists_by_email_def example_store_def)
  from create_conflict_before_validation [OF taken, of example_env]
  have "UserService_create
        (example_env\<lparr>validate_password := (\<lambda>p. None), validate_email := (\<lambda>e. Some ''no'')\<rparr>)
        example_store ?d = UserService_create example_env example_store ?d"
    by blast
  with v c show ?thesis by simp
qed

text \<open>
  C10: \<^verbatim>\<open>UserService.login\<close> and \<^verbatim>\<open>UserService.is_superuser\<close> never change the User
  Store: for every input, on success and on failure, the store after the call is the
  store before it.
\<close>

theorem login_and_is_superuser_preserve_store:
  "snd (UserService_login env cfg s data) = s
   \<and> snd (UserService_is_superuser s i) = s"
  by (simp add: UserService_login_def UserService_is_superuser_def Let_def
        split: option.splits sum.splits)

theorem login_and_is_superuser_preserve_store_witness:
  "snd (UserService_login example_env example_settings example_store
          \<lparr>UserLogin.username = ''alice'', password = ''Str0ng!Pass''\<rparr>) = example_store
   \<and> snd (UserService_login example_env example_settings example_store
          \<lparr>UserLogin.username = ''alice'', password = ''wrong''\<rparr>) = example_store
   \<and> snd (UserService_is_superuser example_store ''user-i'') = example_store
   \<and> snd (UserService_is_superuser example_store ''nobody'') = example_store"
  using login_and_is_superuser_preserve_store
          [of example_env example_settings example_store
              "\<lparr>UserLogin.username = ''alice'', password = ''Str0ng!Pass''\<rparr>" "''user-i''"]
        login_and_is_superuser_preserve_store
          [of example_env example_settings example_store
              "\<lparr>UserLogin.username = ''alice'', password = ''wrong''\<rparr>" "''nobody''"]
  by simp

end
